theory Spec2Isabelle
  imports Complex_Main "HOL-Library.Multiset"
begin

section \<open>Errors and the process-wide random sources\<close>

text \<open>
  Every \<^verbatim>\<open>raise\<close> of the Python sources, and every exception of a library call
  they make, is a value \<open>Inl e\<close> of the result type \<open>error + 'a\<close>.
\<close>

datatype error = ValueError string | RuntimeError string | IndexError string

fun and_then :: "error + 'a \<Rightarrow> ('a \<Rightarrow> error + 'b) \<Rightarrow> error + 'b" where
  "and_then (Inl e) f = Inl e"
| "and_then (Inr x) f = f x"

text \<open>
  The operators draw from two process-wide generators: torch's default generator
  (\<^verbatim>\<open>torch.randint\<close>, \<^verbatim>\<open>torch.rand\<close>) and Python's \<^verbatim>\<open>random\<close> module
  (\<^verbatim>\<open>random.randint\<close>). A generator state is represented by the tape of raw words
  it is going to produce; drawing reads the head of the tape and advances it.
\<close>

type_synonym tape = "nat \<Rightarrow> nat"

record rng =
  torch_gen :: tape
  py_gen :: tape

definition advance :: "nat \<Rightarrow> tape \<Rightarrow> tape" where
  "advance k t = (\<lambda>n. t (n + k))"

text \<open>
  \<^verbatim>\<open>torch.randint(low, high, size=(1,)).item()\<close>: torch reduces one raw word modulo
  the width of the half-open range \<open>[low, high)\<close> and raises when the range is empty.
\<close>

definition torch_randint :: "int \<Rightarrow> int \<Rightarrow> rng \<Rightarrow> error + (int \<times> rng)" where
  "torch_randint low high g =
     (if high \<le> low then Inl (RuntimeError ''random_ expects from to be less than to'')
      else Inr (low + int (torch_gen g 0) mod (high - low),
                g\<lparr>torch_gen := advance 1 (torch_gen g)\<rparr>))"

text \<open>\<^verbatim>\<open>random.randint(a, b)\<close>: the closed range \<open>[a, b]\<close>.\<close>

definition random_randint :: "int \<Rightarrow> int \<Rightarrow> rng \<Rightarrow> error + (int \<times> rng)" where
  "random_randint a b g =
     (if b < a then Inl (ValueError ''empty range for randrange()'')
      else Inr (a + int (py_gen g 0) mod (b - a + 1),
                g\<lparr>py_gen := advance 1 (py_gen g)\<rparr>))"

text \<open>
  Python's \<^verbatim>\<open>int(x)\<close> of a float truncates toward zero. Floats are modelled by the
  reals they denote; IEEE rounding of the product \<^verbatim>\<open>scale * h\<close> is not modelled.
\<close>

definition py_int :: "real \<Rightarrow> int" where
  "py_int r = (if 0 \<le> r then \<lfloor>r\<rfloor> else \<lceil>r\<rceil>)"

section \<open>Tensors\<close>

text \<open>
  A float tensor is a nested list of reals: a plane is a list of rows, a rank-3 tensor
  \<open>(C, H, W)\<close> a list of planes and a rank-4 tensor \<open>(B, C, H, W)\<close> a list of those.
  A tensor is rectangular, so its shape is read off the first element of every nesting
  level; a dimension that lies behind an empty one is read as 0.
\<close>

type_synonym plane = "real list list"
type_synonym tensor3 = "plane list"
type_synonym tensor4 = "tensor3 list"

definition tabulate2 :: "nat \<Rightarrow> nat \<Rightarrow> (nat \<Rightarrow> nat \<Rightarrow> 'a) \<Rightarrow> 'a list list" where
  "tabulate2 h w f = map (\<lambda>y. map (\<lambda>x. f y x) [0..<w]) [0..<h]"

definition zeros :: "nat \<Rightarrow> nat \<Rightarrow> plane" where
  "zeros h w = replicate h (replicate w 0)"

definition dims :: "plane \<Rightarrow> nat \<times> nat" where
  "dims p = (length p, case p of [] \<Rightarrow> 0 | r # _ \<Rightarrow> length r)"

definition shape3 :: "tensor3 \<Rightarrow> nat \<times> nat \<times> nat" where
  "shape3 t = (length t, case t of [] \<Rightarrow> (0, 0) | p # _ \<Rightarrow> dims p)"

definition shape4 :: "tensor4 \<Rightarrow> nat \<times> nat \<times> nat \<times> nat" where
  "shape4 t = (length t, case t of [] \<Rightarrow> (0, 0, 0) | s # _ \<Rightarrow> shape3 s)"

text \<open>\<^verbatim>\<open>image.shape[-2:]\<close>\<close>

definition spatial :: "tensor4 \<Rightarrow> nat \<times> nat" where
  "spatial t = snd (snd (shape4 t))"

definition plane_ok :: "nat \<Rightarrow> nat \<Rightarrow> plane \<Rightarrow> bool" where
  "plane_ok h w p \<longleftrightarrow> length p = h \<and> list_all (\<lambda>r. length r = w) p"

definition tensor3_ok :: "nat \<Rightarrow> nat \<Rightarrow> nat \<Rightarrow> tensor3 \<Rightarrow> bool" where
  "tensor3_ok c h w t \<longleftrightarrow> length t = c \<and> list_all (plane_ok h w) t"

definition tensor4_ok :: "nat \<Rightarrow> nat \<Rightarrow> nat \<Rightarrow> nat \<Rightarrow> tensor4 \<Rightarrow> bool" where
  "tensor4_ok b c h w t \<longleftrightarrow> length t = b \<and> list_all (tensor3_ok c h w) t"

definition map_planes :: "(plane \<Rightarrow> plane) \<Rightarrow> tensor4 \<Rightarrow> tensor4" where
  "map_planes f t = map (map f) t"

fun sequence :: "(error + 'a) list \<Rightarrow> error + 'a list" where
  "sequence [] = Inr []"
| "sequence (m # ms) = and_then m (\<lambda>x. and_then (sequence ms) (\<lambda>xs. Inr (x # xs)))"

text \<open>
  Python slicing \<^verbatim>\<open>xs[a:b]\<close> with integer bounds: a negative bound counts from the
  end, both are clipped to the length, and an inverted range is empty.
\<close>

definition slice_bounds :: "nat \<Rightarrow> int \<Rightarrow> int \<Rightarrow> nat \<times> nat" where
  "slice_bounds n a b =
     (let clip = (\<lambda>k. if k < 0 then max 0 (k + int n) else min k (int n));
          s = clip a;
          e = max s (clip b)
      in (nat s, nat e))"

definition py_slice :: "int \<Rightarrow> int \<Rightarrow> 'a list \<Rightarrow> 'a list" where
  "py_slice a b xs = (let (s, e) = slice_bounds (length xs) a b in take (e - s) (drop s xs))"

text \<open>\<^verbatim>\<open>t[:, :, i0:i1, j0:j1]\<close>\<close>

definition slice_hw :: "int \<Rightarrow> int \<Rightarrow> int \<Rightarrow> int \<Rightarrow> tensor4 \<Rightarrow> tensor4" where
  "slice_hw i0 i1 j0 j1 t = map_planes (\<lambda>p. map (py_slice j0 j1) (py_slice i0 i1 p)) t"

text \<open>
  \<^verbatim>\<open>dst[:, :, i0:i1, j0:j1] = src\<close>. The source must have the shape of the addressed
  window; torch would also accept a source that broadcasts to it, which does not arise
  for the non-negative window sizes of the operators below and is reported as a shape
  error here.
\<close>

definition assign_plane :: "int \<Rightarrow> int \<Rightarrow> int \<Rightarrow> int \<Rightarrow> plane \<Rightarrow> plane \<Rightarrow> error + plane" where
  "assign_plane i0 i1 j0 j1 src dst =
     (let (h, w) = dims dst;
          (r0, r1) = slice_bounds h i0 i1;
          (c0, c1) = slice_bounds w j0 j1
      in if plane_ok (r1 - r0) (c1 - c0) src
         then Inr (tabulate2 h w (\<lambda>y x.
                if r0 \<le> y \<and> y < r1 \<and> c0 \<le> x \<and> x < c1
                then src ! (y - r0) ! (x - c0) else dst ! y ! x))
         else Inl (RuntimeError ''shape mismatch in slice assignment''))"

definition assign_slice ::
  "tensor4 \<Rightarrow> int \<Rightarrow> int \<Rightarrow> int \<Rightarrow> int \<Rightarrow> tensor4 \<Rightarrow> error + tensor4" where
  "assign_slice dst i0 i1 j0 j1 src =
     (if map length src = map length dst
      then sequence (map (\<lambda>(d3, s3).
             sequence (map (\<lambda>(d, s). assign_plane i0 i1 j0 j1 s d) (zip d3 s3))) (zip dst src))
      else Inl (RuntimeError ''shape mismatch in slice assignment''))"

definition tensor_values :: "tensor4 \<Rightarrow> real list" where
  "tensor_values t = concat (concat (concat t))"

text \<open>\<^verbatim>\<open>t.min().item()\<close> and \<^verbatim>\<open>t.max().item()\<close>, which raise on a tensor without elements.\<close>

definition tensor_min :: "tensor4 \<Rightarrow> error + real" where
  "tensor_min t =
     (case tensor_values t of
        [] \<Rightarrow> Inl (RuntimeError ''min(): input.numel() == 0'')
      | v # vs \<Rightarrow> Inr (fold min vs v))"

definition tensor_max :: "tensor4 \<Rightarrow> error + real" where
  "tensor_max t =
     (case tensor_values t of
        [] \<Rightarrow> Inl (RuntimeError ''max(): input.numel() == 0'')
      | v # vs \<Rightarrow> Inr (fold max vs v))"

text \<open>
  \<^verbatim>\<open>torch.rand((b, c, 1, 1))\<close>: \<open>b * c\<close> raw words, each reduced to a 24-bit fraction
  in \<open>[0, 1)\<close>, filled in row-major order.
\<close>

definition torch_rand :: "nat \<Rightarrow> nat \<Rightarrow> rng \<Rightarrow> real list list \<times> rng" where
  "torch_rand b c g =
     (tabulate2 b c (\<lambda>i j. real (torch_gen g (i * c + j) mod 2 ^ 24) / 2 ^ 24),
      g\<lparr>torch_gen := advance (b * c) (torch_gen g)\<rparr>)"

section \<open>The torch and torchvision calls of the operators\<close>

text \<open>
  The numerical kernels of the libraries are parameters of the model: the tapes that
  \<^verbatim>\<open>torch.manual_seed\<close> and \<^verbatim>\<open>random.seed\<close> install, the value of one output pixel
  of a bilinear resize (with or without antialiasing), the source index that nearest
  resizing assigns to an output index, and the source coordinates \<open>(x, y)\<close> that the
  rotation and the perspective warp assign to an output pixel \<open>(y, x)\<close>. What the
  operators pass to the library (interpolation modes, sizes, windows, the order of the
  random draws) is modelled as written in the source.
\<close>

record backend =
  torch_seed_tape :: "int \<Rightarrow> tape"
  py_seed_tape :: "int \<Rightarrow> tape"
  bilinear_resize_px :: "bool \<Rightarrow> plane \<Rightarrow> nat \<Rightarrow> nat \<Rightarrow> nat \<Rightarrow> nat \<Rightarrow> real"
  nearest_index :: "nat \<Rightarrow> nat \<Rightarrow> nat \<Rightarrow> nat"
  rotate_source :: "real \<Rightarrow> nat \<Rightarrow> nat \<Rightarrow> nat \<Rightarrow> nat \<Rightarrow> real \<times> real"
  perspective_source ::
    "(int \<times> int) list \<Rightarrow> (int \<times> int) list \<Rightarrow> nat \<Rightarrow> nat \<Rightarrow> nat \<Rightarrow> nat \<Rightarrow> real \<times> real"

text \<open>\<^verbatim>\<open>torch.manual_seed(seed); random.seed(seed)\<close>\<close>

definition reseed :: "backend \<Rightarrow> int \<Rightarrow> rng \<Rightarrow> rng" where
  "reseed lib seed g = g\<lparr>torch_gen := torch_seed_tape lib seed, py_gen := py_seed_tape lib seed\<rparr>"

datatype InterpolationMode = NEAREST | BILINEAR

text \<open>
  \<^verbatim>\<open>F.resize(img, size, interpolation, antialias)\<close> for a size pair: torchvision returns
  the input itself when it already has the requested size; torch refuses empty inputs and
  non-positive output sizes. Nearest resizing copies the source pixel at the index the
  backend assigns, clamped to the last row and column.
\<close>

definition F_resize ::
  "backend \<Rightarrow> tensor4 \<Rightarrow> int \<times> int \<Rightarrow> InterpolationMode \<Rightarrow> bool \<Rightarrow> error + tensor4" where
  "F_resize lib img output_size mode antialias =
     (let (h, w) = spatial img; (oh, ow) = output_size in
      if (int h, int w) = (oh, ow) then Inr img
      else if oh \<le> 0 \<or> ow \<le> 0 \<or> h = 0 \<or> w = 0
      then Inl (RuntimeError ''Input and output sizes should be greater than 0'')
      else Inr (map_planes (\<lambda>p. tabulate2 (nat oh) (nat ow)
             (case mode of
                NEAREST \<Rightarrow> (\<lambda>y x. p ! min (nearest_index lib h (nat oh) y) (h - 1)
                                    ! min (nearest_index lib w (nat ow) x) (w - 1))
              | BILINEAR \<Rightarrow> bilinear_resize_px lib antialias p (nat oh) (nat ow))) img))"

text \<open>
  \<^verbatim>\<open>grid_sample\<close> with zero padding, as \<^verbatim>\<open>F.rotate\<close> and \<^verbatim>\<open>F.perspective\<close> use it
  when no fill is given: a source position outside the plane reads 0.
\<close>

definition pixel_or_zero :: "plane \<Rightarrow> int \<Rightarrow> int \<Rightarrow> real" where
  "pixel_or_zero p iy ix =
     (if 0 \<le> iy \<and> iy < int (length p) \<and> 0 \<le> ix \<and> ix < int (length (p ! nat iy))
      then p ! nat iy ! nat ix else 0)"

definition nearbyint :: "real \<Rightarrow> int" where
  "nearbyint r =
     (let f = \<lfloor>r\<rfloor> in
      if r - of_int f < 1 / 2 then f
      else if 1 / 2 < r - of_int f then f + 1
      else if even f then f else f + 1)"

definition grid_sample :: "InterpolationMode \<Rightarrow> plane \<Rightarrow> real \<times> real \<Rightarrow> real" where
  "grid_sample mode p xy =
     (let (sx, sy) = xy in
      case mode of
        NEAREST \<Rightarrow> pixel_or_zero p (nearbyint sy) (nearbyint sx)
      | BILINEAR \<Rightarrow>
          (let x0 = \<lfloor>sx\<rfloor>; y0 = \<lfloor>sy\<rfloor>; fx = sx - of_int x0; fy = sy - of_int y0 in
           pixel_or_zero p y0 x0 * (1 - fx) * (1 - fy)
           + pixel_or_zero p y0 (x0 + 1) * fx * (1 - fy)
           + pixel_or_zero p (y0 + 1) x0 * (1 - fx) * fy
           + pixel_or_zero p (y0 + 1) (x0 + 1) * fx * fy))"

text \<open>
  \<^verbatim>\<open>F.rotate(img, angle)\<close>: the interpolation is left at torchvision's default for
  \<^verbatim>\<open>rotate\<close>, \<^verbatim>\<open>InterpolationMode.NEAREST\<close>; the output keeps the input's size.
\<close>

definition F_rotate :: "backend \<Rightarrow> tensor4 \<Rightarrow> real \<Rightarrow> tensor4" where
  "F_rotate lib img angle =
     (let (h, w) = spatial img in
      map_planes (\<lambda>p. tabulate2 h w (\<lambda>y x.
        grid_sample NEAREST p (rotate_source lib angle h w y x))) img)"

text \<open>
  \<^verbatim>\<open>F.perspective(img, startpoints, endpoints)\<close>: the interpolation is left at
  torchvision's default for \<^verbatim>\<open>perspective\<close>, \<^verbatim>\<open>InterpolationMode.BILINEAR\<close>.
\<close>

definition F_perspective ::
  "backend \<Rightarrow> tensor4 \<Rightarrow> (int \<times> int) list \<Rightarrow> (int \<times> int) list \<Rightarrow> tensor4" where
  "F_perspective lib img startpoints endpoints =
     (let (h, w) = spatial img in
      map_planes (\<lambda>p. tabulate2 h w (\<lambda>y x.
        grid_sample BILINEAR p (perspective_source lib startpoints endpoints h w y x))) img)"

definition F_hflip :: "tensor4 \<Rightarrow> tensor4" where
  "F_hflip img = map_planes (map rev) img"

text \<open>
  \<^verbatim>\<open>F.crop(img, top, left, height, width)\<close>: a slice when the window lies inside the
  image, otherwise the window with the part outside the image filled with 0.
\<close>

definition F_crop :: "tensor4 \<Rightarrow> int \<Rightarrow> int \<Rightarrow> int \<Rightarrow> int \<Rightarrow> tensor4" where
  "F_crop img i j th tw =
     (let (h, w) = spatial img in
      if j < 0 \<or> i < 0 \<or> int w < j + tw \<or> int h < i + th
      then map_planes (\<lambda>p. tabulate2 (nat th) (nat tw) (\<lambda>y x.
             pixel_or_zero p (i + int y) (j + int x))) img
      else slice_hw i (i + th) j (j + tw) img)"

text \<open>
  \<^verbatim>\<open>transforms.RandomCrop.get_params(img, output_size)\<close> for an image of size
  \<open>(h, w)\<close>: no draw when the requested size is the image's, otherwise two draws for the
  offset of the window.
\<close>

definition RandomCrop_get_params ::
  "nat \<times> nat \<Rightarrow> int \<times> int \<Rightarrow> rng \<Rightarrow> error + ((int \<times> int \<times> int \<times> int) \<times> rng)" where
  "RandomCrop_get_params hw output_size g =
     (let (h, w) = hw; (th, tw) = output_size in
      if int h < th \<or> int w < tw
      then Inl (ValueError ''Required crop size is larger than input image size'')
      else if int w = tw \<and> int h = th then Inr ((0, 0, int h, int w), g)
      else and_then (torch_randint 0 (int h - th + 1) g) (\<lambda>(i, g1).
           and_then (torch_randint 0 (int w - tw + 1) g1) (\<lambda>(j, g2).
           Inr ((i, j, th, tw), g2))))"

section \<open>Identity, Rotate, Resize, Crop, UpperLeftCrop, HorizontalFlip\<close>

definition Identity_forward :: "tensor4 \<Rightarrow> tensor4 \<Rightarrow> tensor4 \<times> tensor4" where
  "Identity_forward img msk = (img, msk)"

definition HorizontalFlip_forward :: "tensor4 \<Rightarrow> tensor4 \<Rightarrow> tensor4 \<times> tensor4" where
  "HorizontalFlip_forward img msk = (F_hflip img, F_hflip msk)"

record Rotate =
  min_angle :: "int option"
  max_angle :: "int option"

definition get_random_angle :: "Rotate \<Rightarrow> rng \<Rightarrow> error + (int \<times> rng)" where
  "get_random_angle self g =
     (case min_angle self of
        None \<Rightarrow> Inl (ValueError ''min_angle and max_angle must be provided'')
      | Some lo \<Rightarrow>
     (case max_angle self of
        None \<Rightarrow> Inl (ValueError ''min_angle and max_angle must be provided'')
      | Some hi \<Rightarrow> torch_randint lo (hi + 1) g))"

definition Rotate_forward ::
  "backend \<Rightarrow> Rotate \<Rightarrow> tensor4 \<Rightarrow> tensor4 \<Rightarrow> real option \<Rightarrow> rng
     \<Rightarrow> error + ((tensor4 \<times> tensor4) \<times> rng)" where
  "Rotate_forward lib self img msk angle g =
     and_then
       (case angle of
          None \<Rightarrow> and_then (get_random_angle self g) (\<lambda>(a, g1). Inr (of_int a, g1))
        | Some a \<Rightarrow> Inr (a, g))
       (\<lambda>(a, g1). Inr ((F_rotate lib img a, F_rotate lib msk a), g1))"

text \<open>
  \<^verbatim>\<open>Resize\<close>, \<^verbatim>\<open>Crop\<close> and \<^verbatim>\<open>UpperLeftCrop\<close> hold the same two fields and define
  the same \<^verbatim>\<open>get_random_size\<close>; one record and one sampler stand for the three.
\<close>

record size_range =
  min_size :: "real option"
  max_size :: "real option"

definition get_random_size ::
  "size_range \<Rightarrow> nat \<Rightarrow> nat \<Rightarrow> rng \<Rightarrow> error + ((int \<times> int) \<times> rng)" where
  "get_random_size self h w g =
     (case min_size self of
        None \<Rightarrow> Inl (ValueError ''min_size and max_size must be provided'')
      | Some lo \<Rightarrow>
     (case max_size self of
        None \<Rightarrow> Inl (ValueError ''min_size and max_size must be provided'')
      | Some hi \<Rightarrow>
          and_then (torch_randint (py_int (lo * real h)) (py_int (hi * real h) + 1) g)
            (\<lambda>(oh, g1).
          and_then (torch_randint (py_int (lo * real w)) (py_int (hi * real w) + 1) g1)
            (\<lambda>(ow, g2). Inr ((oh, ow), g2)))))"

text \<open>The first lines shared by the three \<^verbatim>\<open>forward\<close> methods: the output size.\<close>

definition output_size_of ::
  "size_range \<Rightarrow> tensor4 \<Rightarrow> real option \<Rightarrow> rng \<Rightarrow> error + ((int \<times> int) \<times> rng)" where
  "output_size_of self img sz g =
     (let (h, w) = spatial img in
      case sz of
        None \<Rightarrow> get_random_size self h w g
      | Some s \<Rightarrow> Inr ((py_int (s * real h), py_int (s * real w)), g))"

definition Resize_forward ::
  "backend \<Rightarrow> size_range \<Rightarrow> tensor4 \<Rightarrow> tensor4 \<Rightarrow> real option \<Rightarrow> rng
     \<Rightarrow> error + ((tensor4 \<times> tensor4) \<times> rng)" where
  "Resize_forward lib self img msk sz g =
     and_then (output_size_of self img sz g) (\<lambda>(output_size, g1).
     and_then (F_resize lib img output_size BILINEAR True) (\<lambda>img1.
     and_then (F_resize lib msk output_size NEAREST True) (\<lambda>msk1.
     Inr ((img1, msk1), g1))))"

definition Crop_forward ::
  "size_range \<Rightarrow> tensor4 \<Rightarrow> tensor4 \<Rightarrow> real option \<Rightarrow> rng
     \<Rightarrow> error + ((tensor4 \<times> tensor4) \<times> rng)" where
  "Crop_forward self img msk sz g =
     and_then (output_size_of self img sz g) (\<lambda>(output_size, g1).
     and_then (RandomCrop_get_params (spatial img) output_size g1) (\<lambda>((i, j, h, w), g2).
     Inr ((F_crop img i j h w, F_crop msk i j h w), g2)))"

definition UpperLeftCrop_forward ::
  "size_range \<Rightarrow> tensor4 \<Rightarrow> tensor4 \<Rightarrow> real option \<Rightarrow> rng
     \<Rightarrow> error + ((tensor4 \<times> tensor4) \<times> rng)" where
  "UpperLeftCrop_forward self img msk sz g =
     and_then (output_size_of self img sz g) (\<lambda>(output_size, g1).
     and_then (RandomCrop_get_params (spatial img) output_size g1) (\<lambda>((i, j, h, w), g2).
     Inr ((F_crop img 0 0 h w, F_crop msk 0 0 h w), g2)))"

section \<open>CropResizePad: configuration and samplers\<close>

record CropResizePad =
  resize_min :: "real option"
  resize_max :: "real option"
  crop_min :: "real option"
  crop_max :: "real option"

definition get_random_resize_size ::
  "CropResizePad \<Rightarrow> int \<Rightarrow> int \<Rightarrow> rng \<Rightarrow> error + ((int \<times> int) \<times> rng)" where
  "get_random_resize_size self h w g =
     (case resize_min self of
        None \<Rightarrow> Inl (ValueError ''resize_min and resize_max must be provided'')
      | Some lo \<Rightarrow>
     (case resize_max self of
        None \<Rightarrow> Inl (ValueError ''resize_min and resize_max must be provided'')
      | Some hi \<Rightarrow>
          and_then (torch_randint (py_int (lo * of_int h)) (py_int (hi * of_int h) + 1) g)
            (\<lambda>(nh, g1).
          and_then (torch_randint (py_int (lo * of_int w)) (py_int (hi * of_int w) + 1) g1)
            (\<lambda>(nw, g2). Inr ((nh, nw), g2)))))"

definition get_random_crop_size ::
  "CropResizePad \<Rightarrow> int \<Rightarrow> int \<Rightarrow> rng \<Rightarrow> error + ((int \<times> int) \<times> rng)" where
  "get_random_crop_size self h w g =
     (case crop_min self of
        None \<Rightarrow> Inl (ValueError ''crop_min and crop_max must be provided'')
      | Some lo \<Rightarrow>
     (case crop_max self of
        None \<Rightarrow> Inl (ValueError ''crop_min and crop_max must be provided'')
      | Some hi \<Rightarrow>
          and_then (torch_randint (py_int (lo * of_int h)) (min (py_int (hi * of_int h) + 1) h) g)
            (\<lambda>(ch, g1).
          and_then (torch_randint (py_int (lo * of_int w)) (min (py_int (hi * of_int w) + 1) w) g1)
            (\<lambda>(cw, g2). Inr ((ch, cw), g2)))))"

section \<open>CropResizePad.forward\<close>

text \<open>
  The body of \<^verbatim>\<open>forward\<close> is given in three parts, in the order of the source: the
  resized size and the crop size (the branch on \<^verbatim>\<open>sizes\<close>), the placement of the crop
  on a canvas of the original size (from \<^verbatim>\<open>pad_top\<close> to the return), and the method
  itself, which reseeds, resizes, clamps the crop, draws the window and checks it
  against the canvas.
\<close>

definition CropResizePad_sizes ::
  "CropResizePad \<Rightarrow> nat \<Rightarrow> nat \<Rightarrow> (real \<times> real \<times> real \<times> real) option \<Rightarrow> rng
     \<Rightarrow> error + ((int \<times> int) \<times> (int \<times> int) \<times> rng)" where
  "CropResizePad_sizes self original_h original_w sizes g =
     (case sizes of
        None \<Rightarrow>
          and_then (get_random_resize_size self (int original_h) (int original_w) g)
            (\<lambda>(new_size, g1).
          and_then (get_random_crop_size self (fst new_size) (snd new_size) g1)
            (\<lambda>(crop_size, g2). Inr (new_size, crop_size, g2)))
      | Some (s0, s1, s2, s3) \<Rightarrow>
          (let new_size = (py_int (s0 * real original_h), py_int (s1 * real original_w)) in
           Inr (new_size,
                (py_int (s2 * of_int (fst new_size)), py_int (s3 * of_int (snd new_size))),
                g)))"

definition CropResizePad_place ::
  "nat \<times> nat \<times> nat \<times> nat \<Rightarrow> tensor4 \<Rightarrow> tensor4 \<Rightarrow> tensor4 \<Rightarrow> tensor4 \<Rightarrow> int \<Rightarrow> int \<Rightarrow> rng
     \<Rightarrow> error + ((tensor4 \<times> tensor4) \<times> rng)" where
  "CropResizePad_place shp images1 masks1 cropped_images cropped_masks h w g3 =
     (let (batch_size, channels, original_h, original_w) = shp in
      and_then (random_randint 0 (max 0 (int original_h - h)) g3) (\<lambda>(pad_top, g4).
      and_then (random_randint 0 (max 0 (int original_w - w)) g4) (\<lambda>(pad_left, g5).
      and_then (tensor_min images1) (\<lambda>min_val.
      and_then (tensor_max images1) (\<lambda>max_val.
      (let (u, g6) = torch_rand batch_size channels g5;
           pad_color = map (map (\<lambda>r. (max_val - min_val) * r + min_val)) u;
           padded_images =
             map (map (\<lambda>c. replicate original_h (replicate original_w c))) pad_color;
           padded_masks =
             replicate batch_size
               (replicate (fst (snd (shape4 masks1))) (zeros original_h original_w))
       in
      and_then
        (assign_slice padded_images pad_top (pad_top + h) pad_left (pad_left + w) cropped_images)
        (\<lambda>padded_images1.
      and_then
        (assign_slice padded_masks pad_top (pad_top + h) pad_left (pad_left + w) cropped_masks)
        (\<lambda>padded_masks1.
      Inr ((padded_images1, padded_masks1), g6)))))))))"

definition CropResizePad_forward ::
  "backend \<Rightarrow> CropResizePad \<Rightarrow> tensor4 \<Rightarrow> tensor4 \<Rightarrow> (real \<times> real \<times> real \<times> real) option
     \<Rightarrow> int option \<Rightarrow> rng \<Rightarrow> error + ((tensor4 \<times> tensor4) \<times> rng)" where
  "CropResizePad_forward lib self images masks sizes seed g0 =
     (let g = (case seed of None \<Rightarrow> g0 | Some s \<Rightarrow> reseed lib s g0);
          (batch_size, channels, original_h, original_w) = shape4 images
      in
      and_then (CropResizePad_sizes self original_h original_w sizes g)
        (\<lambda>(new_size, crop_size, g2).
      and_then (F_resize lib images new_size BILINEAR False) (\<lambda>images1.
      and_then (F_resize lib masks new_size NEAREST True) (\<lambda>masks1.
      (let crop_h = min (fst crop_size) (fst new_size);
           crop_w = min (snd crop_size) (snd new_size)
       in
      and_then
        (if images1 = []
         then Inl (IndexError ''index 0 is out of bounds for dimension 0 with size 0'')
         else RandomCrop_get_params (spatial images1) (crop_h, crop_w) g2)
        (\<lambda>((i, j, h, w), g3).
      (let cropped_images = slice_hw i (i + h) j (j + w) images1;
           cropped_masks = slice_hw i (i + h) j (j + w) masks1
       in
      if int original_h < h \<or> int original_w < w
      then Inl (ValueError ''Crop size is larger than the original image size.'')
      else CropResizePad_place (batch_size, channels, original_h, original_w)
             images1 masks1 cropped_images cropped_masks h w g3)))))))"

section \<open>Perspective\<close>

record Perspective =
  min_distortion_scale :: "real option"
  max_distortion_scale :: "real option"
  random_seed :: "int option"

text \<open>\<^verbatim>\<open>torch.rand(1).item()\<close>\<close>

definition torch_rand_item :: "rng \<Rightarrow> real \<times> rng" where
  "torch_rand_item g =
     (real (torch_gen g 0 mod 2 ^ 24) / 2 ^ 24, g\<lparr>torch_gen := advance 1 (torch_gen g)\<rparr>)"

definition get_random_distortion_scale :: "Perspective \<Rightarrow> rng \<Rightarrow> error + (real \<times> rng)" where
  "get_random_distortion_scale self g =
     (case min_distortion_scale self of
        None \<Rightarrow>
          Inl (ValueError ''min_distortion_scale and max_distortion_scale must be provided'')
      | Some lo \<Rightarrow>
     (case max_distortion_scale self of
        None \<Rightarrow>
          Inl (ValueError ''min_distortion_scale and max_distortion_scale must be provided'')
      | Some hi \<Rightarrow> (let (u, g1) = torch_rand_item g in Inr (lo + u * (hi - lo), g1))))"

definition get_perspective_params ::
  "backend \<Rightarrow> nat \<Rightarrow> nat \<Rightarrow> real \<Rightarrow> int option \<Rightarrow> rng
     \<Rightarrow> error + (((int \<times> int) list \<times> (int \<times> int) list) \<times> rng)" where
  "get_perspective_params lib width height distortion_scale seed g0 =
     (let half_height = height div 2;
          half_width = width div 2;
          g = (case seed of None \<Rightarrow> g0 | Some s \<Rightarrow> reseed lib s g0);
          dw = py_int (distortion_scale * real half_width);
          dh = py_int (distortion_scale * real half_height);
          wd = int width;
          ht = int height
      in
      and_then (torch_randint 0 (dw + 1) g) (\<lambda>(tl_x, g1).
      and_then (torch_randint 0 (dh + 1) g1) (\<lambda>(tl_y, g2).
      and_then (torch_randint (wd - dw - 1) wd g2) (\<lambda>(tr_x, g3).
      and_then (torch_randint 0 (dh + 1) g3) (\<lambda>(tr_y, g4).
      and_then (torch_randint (wd - dw - 1) wd g4) (\<lambda>(br_x, g5).
      and_then (torch_randint (ht - dh - 1) ht g5) (\<lambda>(br_y, g6).
      and_then (torch_randint 0 (dw + 1) g6) (\<lambda>(bl_x, g7).
      and_then (torch_randint (ht - dh - 1) ht g7) (\<lambda>(bl_y, g8).
      Inr (([(0, 0), (wd - 1, 0), (wd - 1, ht - 1), (0, ht - 1)],
            [(tl_x, tl_y), (tr_x, tr_y), (br_x, br_y), (bl_x, bl_y)]), g8))))))))))"

definition Perspective_forward ::
  "backend \<Rightarrow> Perspective \<Rightarrow> tensor4 \<Rightarrow> tensor4 \<Rightarrow> real option \<Rightarrow> rng
     \<Rightarrow> error + ((tensor4 \<times> tensor4) \<times> rng)" where
  "Perspective_forward lib self img msk distortion_scale g =
     and_then
       (case distortion_scale of
          None \<Rightarrow> get_random_distortion_scale self g
        | Some d \<Rightarrow> Inr (d, g))
       (\<lambda>(d, g1).
     (let (height, width) = spatial img in
      and_then (get_perspective_params lib width height d (random_seed self) g1)
        (\<lambda>((startpoints, endpoints), g2).
      Inr ((F_perspective lib img startpoints endpoints,
            F_perspective lib msk startpoints endpoints), g2))))"

text \<open>What a call returns or raises, without the generator state it leaves behind.\<close>

definition outcome :: "error + ('a \<times> rng) \<Rightarrow> error + 'a" where
  "outcome r = (case r of Inl e \<Rightarrow> Inl e | Inr (x, g) \<Rightarrow> Inr x)"

text \<open>Concrete generator states and configurations used to instantiate the theorems.\<close>

definition tape_const :: "nat \<Rightarrow> tape" where
  "tape_const k = (\<lambda>n. k)"

definition rng_const :: "nat \<Rightarrow> rng" where
  "rng_const k = \<lparr>torch_gen = tape_const k, py_gen = tape_const k\<rparr>"

definition crp_config :: "real \<Rightarrow> real \<Rightarrow> real \<Rightarrow> real \<Rightarrow> CropResizePad" where
  "crp_config a b c d =
     \<lparr>resize_min = Some a, resize_max = Some b, crop_min = Some c, crop_max = Some d\<rparr>"

text \<open>
  A backend instance for evaluating the operators at concrete inputs: seeding installs the
  constant tape of the seed, the resize kernels read the source pixel at the proportional
  index, the rotation grid is the identity and the perspective grid lies half a pixel to
  the right of the output pixel.
\<close>

definition sample_backend :: backend where
  "sample_backend =
     \<lparr>torch_seed_tape = (\<lambda>s. tape_const (nat s)),
      py_seed_tape = (\<lambda>s. tape_const (nat s)),
      bilinear_resize_px =
        (\<lambda>antialias p oh ow y x. p ! ((y * length p) div oh) ! ((x * length (p ! 0)) div ow)),
      nearest_index = (\<lambda>n m i. (i * n) div m),
      rotate_source = (\<lambda>angle h w y x. (real x, real y)),
      perspective_source = (\<lambda>startpoints endpoints h w y x. (real x + 1 / 2, real y))\<rparr>"

definition unset_sizes :: size_range where
  "unset_sizes = \<lparr>min_size = None, max_size = None\<rparr>"

definition img2x2 :: tensor4 where
  "img2x2 = [[[[1, 2], [3, 4]]]]"

definition msk2x2 :: tensor4 where
  "msk2x2 = [[[[1, 0], [0, 1]]]]"

section \<open>Basic facts about the samplers\<close>

lemma torch_randint_Inr:
  "torch_randint low high g = Inr (v, g') \<longleftrightarrow>
     low < high \<and> v = low + int (torch_gen g 0) mod (high - low) \<and>
     g' = g\<lparr>torch_gen := advance 1 (torch_gen g)\<rparr>"
  by (auto simp: torch_randint_def)

lemma torch_randint_range:
  assumes "torch_randint low high g = Inr (v, g')"
  shows "low \<le> v \<and> v < high"
proof -
  from assms have lt: "low < high" and v: "v = low + int (torch_gen g 0) mod (high - low)"
    by (simp_all add: torch_randint_Inr)
  from lt have "0 \<le> int (torch_gen g 0) mod (high - low)"
    and "int (torch_gen g 0) mod (high - low) < high - low"
    by simp_all
  with v show ?thesis by linarith
qed

lemma torch_randint_empty:
  "high \<le> low \<Longrightarrow>
     torch_randint low high g = Inl (RuntimeError ''random_ expects from to be less than to'')"
  by (simp add: torch_randint_def)

lemma and_then_Inr:
  "and_then m f = Inr y \<longleftrightarrow> (\<exists>x. m = Inr x \<and> f x = Inr y)"
  by (cases m) simp_all

lemma and_then_Inl:
  "and_then m f = Inl e \<longleftrightarrow> m = Inl e \<or> (\<exists>x. m = Inr x \<and> f x = Inl e)"
  by (cases m) auto

lemma tape_const_app [simp]: "tape_const c n = c"
  by (simp add: tape_const_def)

lemma advance_const [simp]: "advance k (tape_const c) = tape_const c"
  by (simp add: advance_def tape_const_def)

lemma rng_const_sel [simp]:
  "torch_gen (rng_const c) = tape_const c" "py_gen (rng_const c) = tape_const c"
  by (simp_all add: rng_const_def)

lemma rng_const_upd [simp]:
  "(rng_const c)\<lparr>torch_gen := tape_const c\<rparr> = rng_const c"
  "(rng_const c)\<lparr>py_gen := tape_const c\<rparr> = rng_const c"
  by (simp_all add: rng_const_def)

lemma torch_randint_const:
  "low < high \<Longrightarrow>
     torch_randint low high (rng_const c) = Inr (low + int c mod (high - low), rng_const c)"
  by (simp add: torch_randint_def)

lemma random_randint_const:
  "a \<le> b \<Longrightarrow>
     random_randint a b (rng_const c) = Inr (a + int c mod (b - a + 1), rng_const c)"
  by (simp add: random_randint_def)

lemma torch_rand_const:
  "torch_rand b c (rng_const k)
     = (tabulate2 b c (\<lambda>i j. real (k mod 2 ^ 24) / 2 ^ 24), rng_const k)"
  by (simp add: torch_rand_def)

lemma reseed_any:
  "reseed lib s g = \<lparr>torch_gen = torch_seed_tape lib s, py_gen = py_seed_tape lib s\<rparr>"
  by (cases g) (simp add: reseed_def)

lemma F_resize_same:
  "spatial img = (h, w) \<Longrightarrow> F_resize lib img (int h, int w) mode aa = Inr img"
  by (simp add: F_resize_def)

subsection \<open>The sample tensors\<close>

lemma shape4_img2x2: "shape4 img2x2 = (1, 1, 2, 2)"
  by (simp add: shape4_def shape3_def dims_def img2x2_def)

lemma shape4_msk2x2: "shape4 msk2x2 = (1, 1, 2, 2)"
  by (simp add: shape4_def shape3_def dims_def msk2x2_def)

lemma spatial_img2x2: "spatial img2x2 = (2, 2)"
  by (simp add: spatial_def shape4_img2x2)

lemma spatial_msk2x2: "spatial msk2x2 = (2, 2)"
  by (simp add: spatial_def shape4_msk2x2)

lemma img2x2_not_empty: "img2x2 \<noteq> []"
  by (simp add: img2x2_def)

lemma resize_2x2_same:
  "F_resize lib img2x2 (2, 2) mode aa = Inr img2x2"
  "F_resize lib msk2x2 (2, 2) mode aa = Inr msk2x2"
  using F_resize_same[OF spatial_img2x2, of lib mode aa]
        F_resize_same[OF spatial_msk2x2, of lib mode aa]
  by simp_all

lemma get_params_1x1:
  "RandomCrop_get_params (2, 2) (1, 1) (rng_const 0) = Inr ((0, 0, 1, 1), rng_const 0)"
  "RandomCrop_get_params (2, 2) (1, 1) (rng_const 3) = Inr ((1, 1, 1, 1), rng_const 3)"
  by (simp_all add: RandomCrop_get_params_def torch_randint_const)

lemma slices_1x1:
  "slice_hw 0 1 0 1 img2x2 = [[[[1]]]]" "slice_hw 0 1 0 1 msk2x2 = [[[[1]]]]"
  "slice_hw 1 2 1 2 img2x2 = [[[[4]]]]" "slice_hw 1 2 1 2 msk2x2 = [[[[1]]]]"
  by (simp_all add: slice_hw_def map_planes_def py_slice_def slice_bounds_def
        img2x2_def msk2x2_def Let_def)

lemma upt_0_2: "[0..<2] = [0, Suc 0]"
  by (simp add: numeral_2_eq_2)

lemma replicate_2: "replicate 2 x = [x, x]"
  by (simp add: numeral_2_eq_2)

lemma minmax_img2x2: "tensor_min img2x2 = Inr 1" "tensor_max img2x2 = Inr 4"
  by (simp_all add: tensor_min_def tensor_max_def tensor_values_def img2x2_def)

lemma place_1x1_gen0:
  "CropResizePad_place (Suc 0, Suc 0, 2, 2) img2x2 msk2x2 [[[[1]]]] [[[[1]]]] 1 1 (rng_const 0)
     = Inr (([[[[1, 1], [1, 1]]]], [[[[1, 0], [0, 0]]]]), rng_const 0)"
  by (simp add: CropResizePad_place_def random_randint_const minmax_img2x2 torch_rand_const
        shape4_msk2x2 tabulate2_def assign_slice_def assign_plane_def dims_def slice_bounds_def
        plane_ok_def zeros_def Let_def upt_0_2 replicate_2)

lemma place_1x1_gen1:
  "CropResizePad_place (Suc 0, Suc 0, 2, 2) img2x2 msk2x2 [[[[4]]]] [[[[1]]]] 1 1 (rng_const 3)
     = Inr (([[[[16777225 / 16777216, 16777225 / 16777216], [16777225 / 16777216, 4]]]],
             [[[[0, 0], [0, 1]]]]), rng_const 3)"
  by (simp add: CropResizePad_place_def random_randint_const minmax_img2x2 torch_rand_const
        shape4_msk2x2 tabulate2_def assign_slice_def assign_plane_def dims_def slice_bounds_def
        plane_ok_def zeros_def Let_def upt_0_2 replicate_2)

lemma sizes_half_crop:
  "CropResizePad_sizes self 2 2 (Some (1, 1, 1 / 2, 1 / 2)) g = Inr ((2, 2), (1, 1), g)"
  by (simp add: CropResizePad_sizes_def py_int_def)

lemma forward_half_crop_gen0:
  "CropResizePad_forward lib self img2x2 msk2x2 (Some (1, 1, 1 / 2, 1 / 2)) None (rng_const 0)
     = Inr (([[[[1, 1], [1, 1]]]], [[[[1, 0], [0, 0]]]]), rng_const 0)"
  unfolding CropResizePad_forward_def
  by (simp add: shape4_img2x2 sizes_half_crop resize_2x2_same img2x2_not_empty spatial_img2x2
        get_params_1x1 slices_1x1 place_1x1_gen0)

lemma forward_half_crop_gen1:
  "CropResizePad_forward lib self img2x2 msk2x2 (Some (1, 1, 1 / 2, 1 / 2)) None (rng_const 3)
     = Inr (([[[[16777225 / 16777216, 16777225 / 16777216], [16777225 / 16777216, 4]]]],
             [[[[0, 0], [0, 1]]]]), rng_const 3)"
  unfolding CropResizePad_forward_def
  by (simp add: shape4_img2x2 sizes_half_crop resize_2x2_same img2x2_not_empty spatial_img2x2
        get_params_1x1 slices_1x1 place_1x1_gen1)

lemma crop_half_gen0:
  "Crop_forward self img2x2 msk2x2 (Some (1 / 2)) (rng_const 0)
     = Inr (([[[[1]]]], [[[[1]]]]), rng_const 0)"
  by (simp add: Crop_forward_def output_size_of_def spatial_img2x2 spatial_msk2x2 py_int_def
        get_params_1x1 F_crop_def slices_1x1)

lemma crop_half_gen1:
  "Crop_forward self img2x2 msk2x2 (Some (1 / 2)) (rng_const 3)
     = Inr (([[[[4]]]], [[[[1]]]]), rng_const 3)"
  by (simp add: Crop_forward_def output_size_of_def spatial_img2x2 spatial_msk2x2 py_int_def
        get_params_1x1 F_crop_def slices_1x1)

lemma perspective_params_gen0:
  "get_perspective_params lib 4 4 (1 / 2) None (rng_const 0)
     = Inr (([(0, 0), (3, 0), (3, 3), (0, 3)], [(0, 0), (2, 0), (2, 2), (0, 2)]), rng_const 0)"
  by (simp add: get_perspective_params_def py_int_def torch_randint_const)

lemma perspective_params_gen1:
  "get_perspective_params lib 4 4 (1 / 2) None (rng_const 3)
     = Inr (([(0, 0), (3, 0), (3, 3), (0, 3)], [(1, 1), (3, 1), (3, 3), (1, 3)]), rng_const 3)"
  by (simp add: get_perspective_params_def py_int_def torch_randint_const)

lemma get_random_crop_size_Inr:
  "get_random_crop_size self h w g = Inr ((ch, cw), g') \<longleftrightarrow>
     (\<exists>lo hi g1. crop_min self = Some lo \<and> crop_max self = Some hi \<and>
        torch_randint (py_int (lo * of_int h)) (min (py_int (hi * of_int h) + 1) h) g = Inr (ch, g1) \<and>
        torch_randint (py_int (lo * of_int w)) (min (py_int (hi * of_int w) + 1) w) g1 = Inr (cw, g'))"
  by (auto simp: get_random_crop_size_def and_then_Inr split: option.splits)

section \<open>Explicit parameters and the random source\<close>

lemma Rotate_fixed_angle:
  "outcome (Rotate_forward lib rot img msk (Some angle) g)
     = outcome (Rotate_forward lib rot img msk (Some angle) g')"
  by (simp add: Rotate_forward_def outcome_def)

lemma Resize_fixed_size:
  "outcome (Resize_forward lib rs img msk (Some s) g)
     = outcome (Resize_forward lib rs img msk (Some s) g')"
proof -
  obtain h w where hw: "spatial img = (h, w)" by (cases "spatial img")
  let ?sz = "(py_int (s * real h), py_int (s * real w))"
  show ?thesis
    by (cases "F_resize lib img ?sz BILINEAR True"; cases "F_resize lib msk ?sz NEAREST True")
       (simp_all add: Resize_forward_def output_size_of_def outcome_def hw)
qed

lemma UpperLeftCrop_fixed_size:
  "outcome (UpperLeftCrop_forward ul img msk (Some s) g)
     = outcome (UpperLeftCrop_forward ul img msk (Some s) g')"
  by (simp add: UpperLeftCrop_forward_def output_size_of_def outcome_def
        RandomCrop_get_params_def torch_randint_def split: prod.splits)

lemma CropResizePad_seeded:
  "CropResizePad_forward lib crp img msk sizes (Some seed) g
     = CropResizePad_forward lib crp img msk sizes (Some seed) g'"
  by (simp add: CropResizePad_forward_def reseed_any)

lemma Perspective_seeded:
  "Perspective_forward lib (per\<lparr>random_seed := Some seed\<rparr>) img msk (Some d) g
     = Perspective_forward lib (per\<lparr>random_seed := Some seed\<rparr>) img msk (Some d) g'"
  by (simp add: Perspective_forward_def get_perspective_params_def reseed_any)

text \<open>
  C1 as stated fails: with the size, the sizes 4-tuple or the distortion scale fixed,
  \<^verbatim>\<open>Crop\<close> still draws the offset of its window, \<^verbatim>\<open>CropResizePad\<close> the offset of its
  window, the position on the canvas and the pad colour, and \<^verbatim>\<open>Perspective\<close> the
  displacement of the four corners. On a 2x2 image, \<^verbatim>\<open>Crop\<close> with size 1/2 and
  \<^verbatim>\<open>CropResizePad\<close> with sizes (1, 1, 1/2, 1/2) return different images and masks for
  two states of the random source, and the end points of the warp of a 4x4 image with
  distortion scale 1/2 differ.
\<close>

theorem explicit_parameters_counterexample:
  "outcome (Crop_forward unset_sizes img2x2 msk2x2 (Some (1 / 2)) (rng_const 0))
     \<noteq> outcome (Crop_forward unset_sizes img2x2 msk2x2 (Some (1 / 2)) (rng_const 3))
   \<and> outcome (CropResizePad_forward sample_backend (crp_config 1 1 1 1) img2x2 msk2x2
                (Some (1, 1, 1 / 2, 1 / 2)) None (rng_const 0))
     \<noteq> outcome (CropResizePad_forward sample_backend (crp_config 1 1 1 1) img2x2 msk2x2
                (Some (1, 1, 1 / 2, 1 / 2)) None (rng_const 3))
   \<and> outcome (get_perspective_params sample_backend 4 4 (1 / 2) None (rng_const 0))
     \<noteq> outcome (get_perspective_params sample_backend 4 4 (1 / 2) None (rng_const 3))"
  by (simp add: outcome_def crop_half_gen0 crop_half_gen1 forward_half_crop_gen0
        forward_half_crop_gen1 perspective_params_gen0 perspective_params_gen1)

text \<open>
  C1, amended. \<^verbatim>\<open>Rotate\<close> with a fixed angle, \<^verbatim>\<open>Resize\<close> with a fixed size and
  \<^verbatim>\<open>UpperLeftCrop\<close> with a fixed size return the same image and mask, or raise the same
  error, whatever the state of the random source. \<^verbatim>\<open>CropResizePad\<close> with fixed sizes
  and \<^verbatim>\<open>Perspective\<close> with a fixed distortion scale do so once the seed is fixed as
  well (the \<^verbatim>\<open>seed\<close> argument, the configured \<^verbatim>\<open>random_seed\<close>). \<^verbatim>\<open>Identity\<close> and
  \<^verbatim>\<open>HorizontalFlip\<close> never read the random source.
\<close>

theorem explicit_parameters_determinism:
  "outcome (Rotate_forward lib rot img msk (Some angle) g)
     = outcome (Rotate_forward lib rot img msk (Some angle) g')
   \<and> outcome (Resize_forward lib rs img msk (Some s) g)
     = outcome (Resize_forward lib rs img msk (Some s) g')
   \<and> outcome (UpperLeftCrop_forward ul img msk (Some s) g)
     = outcome (UpperLeftCrop_forward ul img msk (Some s) g')
   \<and> outcome (CropResizePad_forward lib crp imgs msks (Some sizes) (Some seed) g)
     = outcome (CropResizePad_forward lib crp imgs msks (Some sizes) (Some seed) g')
   \<and> outcome (Perspective_forward lib (per\<lparr>random_seed := Some seed\<rparr>) img msk (Some d) g)
     = outcome (Perspective_forward lib (per\<lparr>random_seed := Some seed\<rparr>) img msk (Some d) g')"
proof (intro conjI)
  show "outcome (Rotate_forward lib rot img msk (Some angle) g)
     = outcome (Rotate_forward lib rot img msk (Some angle) g')"
    by (rule Rotate_fixed_angle)
  show "outcome (Resize_forward lib rs img msk (Some s) g)
     = outcome (Resize_forward lib rs img msk (Some s) g')"
    by (rule Resize_fixed_size)
  show "outcome (UpperLeftCrop_forward ul img msk (Some s) g)
     = outcome (UpperLeftCrop_forward ul img msk (Some s) g')"
    by (rule UpperLeftCrop_fixed_size)
  show "outcome (CropResizePad_forward lib crp imgs msks (Some sizes) (Some seed) g)
     = outcome (CropResizePad_forward lib crp imgs msks (Some sizes) (Some seed) g')"
    by (rule arg_cong[where f = outcome], rule CropResizePad_seeded)
  show "outcome (Perspective_forward lib (per\<lparr>random_seed := Some seed\<rparr>) img msk (Some d) g)
     = outcome (Perspective_forward lib (per\<lparr>random_seed := Some seed\<rparr>) img msk (Some d) g')"
    by (rule arg_cong[where f = outcome], rule Perspective_seeded)
qed

section \<open>The crop sampler of CropResizePad\<close>

text \<open>
  C10. For every resized size \<open>(h, w)\<close>, a crop size returned by
  \<^verbatim>\<open>CropResizePad.get_random_crop_size\<close> is strictly smaller than \<open>h\<close> and \<open>w\<close>: the
  upper bound of each draw is capped at the dimension itself and is exclusive. When
  \<open>int(crop_min * h) \<ge> h\<close> or \<open>int(crop_min * w) \<ge> w\<close> the integer range of a draw is
  empty and the call raises instead of returning a size. The sampler returns exactly when
  both ranges are non-empty.
\<close>

theorem crop_sampler_strictly_smaller:
  assumes "crop_min self = Some lo" and "crop_max self = Some hi"
  shows "(\<forall>ch cw g'. get_random_crop_size self h w g = Inr ((ch, cw), g') \<longrightarrow> ch < h \<and> cw < w)
       \<and> (h \<le> py_int (lo * of_int h) \<or> w \<le> py_int (lo * of_int w) \<longrightarrow>
            (\<exists>e. get_random_crop_size self h w g = Inl e))
       \<and> ((\<exists>r. get_random_crop_size self h w g = Inr r) \<longleftrightarrow>
            py_int (lo * of_int h) < min (py_int (hi * of_int h) + 1) h \<and>
            py_int (lo * of_int w) < min (py_int (hi * of_int w) + 1) w)"
proof (intro conjI allI impI)
  fix ch cw g'
  assume "get_random_crop_size self h w g = Inr ((ch, cw), g')"
  then obtain g1 where
    a: "torch_randint (py_int (lo * of_int h)) (min (py_int (hi * of_int h) + 1) h) g = Inr (ch, g1)"
    and b: "torch_randint (py_int (lo * of_int w)) (min (py_int (hi * of_int w) + 1) w) g1 = Inr (cw, g')"
    using assms by (auto simp: get_random_crop_size_Inr)
  from torch_randint_range[OF a] show "ch < h" by simp
  from torch_randint_range[OF b] show "cw < w" by simp
next
  assume "h \<le> py_int (lo * of_int h) \<or> w \<le> py_int (lo * of_int w)"
  then show "\<exists>e. get_random_crop_size self h w g = Inl e"
    using assms
    by (auto simp: get_random_crop_size_def torch_randint_def)
next
  show "(\<exists>r. get_random_crop_size self h w g = Inr r) \<longleftrightarrow>
          py_int (lo * of_int h) < min (py_int (hi * of_int h) + 1) h \<and>
          py_int (lo * of_int w) < min (py_int (hi * of_int w) + 1) w"
    using assms
    by (auto simp: get_random_crop_size_def torch_randint_def)
qed

theorem crop_sampler_strictly_smaller_witness:
  "get_random_crop_size (crp_config 1 1 (1/2) 1) 4 4 (rng_const 1)
     = Inr ((3, 3), (rng_const 1)\<lparr>torch_gen := advance 1 (advance 1 (tape_const 1))\<rparr>)
   \<and> (3::int) < 4
   \<and> (4::int) \<le> py_int (1 * of_int 4)
   \<and> (\<exists>e. get_random_crop_size (crp_config 1 1 1 1) 4 4 (rng_const 1) = Inl e)"
proof -
  have cfg: "crop_min (crp_config 1 1 (1/2) 1) = Some (1/2)"
    "crop_max (crp_config 1 1 (1/2) 1) = Some 1"
    "crop_min (crp_config 1 1 1 1) = Some 1" "crop_max (crp_config 1 1 1 1) = Some 1"
    by (simp_all add: crp_config_def)
  have run: "get_random_crop_size (crp_config 1 1 (1/2) 1) 4 4 (rng_const 1)
     = Inr ((3, 3), (rng_const 1)\<lparr>torch_gen := advance 1 (advance 1 (tape_const 1))\<rparr>)"
    by (simp add: get_random_crop_size_def crp_config_def torch_randint_def py_int_def
        rng_const_def tape_const_def advance_def)
  have full: "(4::int) \<le> py_int (1 * of_int 4)"
    by (simp add: py_int_def)
  from crop_sampler_strictly_smaller[OF cfg(1,2), of 4 4 "rng_const 1"] run
  have "(3::int) < 4" by simp
  moreover from crop_sampler_strictly_smaller[OF cfg(3,4), of 4 4 "rng_const 1"] full
  have "\<exists>e. get_random_crop_size (crp_config 1 1 1 1) 4 4 (rng_const 1) = Inl e"
    by blast
  ultimately show ?thesis using run full by simp
qed

end
